theory Spec2Isabelle
  imports Complex_Main
begin

section \<open>Data model (frontend/src/types/contract.ts)\<close>

text \<open>
  The TypeScript interfaces become records, an optional field \<open>f?: T\<close> becomes
  \<open>T option\<close>, and the string-literal unions become datatypes. The integer-valued
  \<open>number\<close> fields are \<open>int\<close>; \<open>confidence_score\<close> is a fraction and is \<open>real\<close>.
  The form can also put an infinity into \<open>contract_duration_months\<close>; the section on
  JavaScript's numbers says which \<open>int\<close> stands for it.
\<close>

record Party =
  name :: string
  role :: "string option"

record ExtractedData =
  parties :: "Party list"
  effective_date :: "string option"
  contract_duration_months :: "int option"
  contract_duration_raw :: "string option"
  jurisdiction :: "string option"
  risk_score :: int

datatype severity = Warning | Error | Critical

record ValidationIssue =
  field :: string
  rule :: string
  message :: string
  severity :: severity
  reasoning :: "string option"

datatype ContractStatus = Pending | Processing | Approved | Requires_human_review | Rejected

record Contract =
  contract_id :: string
  file_name :: string
  status :: ContractStatus
  created_at :: string
  processed_at :: "string option"
  extracted_data :: "ExtractedData option"
  validation_issues :: "ValidationIssue list"
  requires_human_review :: bool
  review_reasons :: "string list"
  confidence_score :: "real option"
  human_approved :: bool

section \<open>JavaScript built-ins used by the audit form\<close>

text \<open>
  A JavaScript number that the form computes is NaN, an integer-valued double or an
  infinity. \<open>None\<close> is NaN; an \<open>int\<close> stands for the double of the same value, and
  \<open>2^1024\<close> and \<open>- 2^1024\<close>, which no double equals, stand for \<open>Infinity\<close> and
  \<open>-Infinity\<close>. The order of the numbers and their truthiness are those of their
  ints; \<open>-0\<close> is 0, from which the form's code does not tell it apart. JSON has no
  infinity and a request body would carry \<open>null\<close> for one; the requests below carry
  the form's data as it is.
\<close>

text \<open>
  The double nearest to a natural number, ties to the even significand:
  \<open>double_ulp 1 n\<close> is the distance between neighbouring doubles at \<open>n\<close>, the least
  power of two \<open>u\<close> with \<open>n div u < 2^53\<close>. A result of \<open>2^1024\<close> or more is
  \<open>Infinity\<close>.
\<close>

function double_ulp :: "nat \<Rightarrow> nat \<Rightarrow> nat" where
  "double_ulp u n = (if u = 0 \<or> n div u < 2 ^ 53 then u else double_ulp (2 * u) n)"
  by pat_completeness auto
termination
proof (relation "measure (\<lambda>(u, n). n div u)")
  show "wf (measure (\<lambda>(u, n). n div u))"
    by simp
next
  fix u n :: nat
  assume "\<not> (u = 0 \<or> n div u < 2 ^ 53)"
  then have "0 < n div u"
    by simp
  moreover have "n div (2 * u) = (n div u) div 2"
    by (simp add: div_mult2_eq mult.commute)
  ultimately show "((2 * u, n), (u, n)) \<in> measure (\<lambda>(u, n). n div u)"
    by simp
qed

declare double_ulp.simps [simp del]

definition to_double :: "nat \<Rightarrow> nat" where
  "to_double n =
     (let u = double_ulp 1 n;
          q = n div u;
          r = n mod u;
          m = (if 2 * r < u then q
               else if u < 2 * r then q + 1
               else if even q then q else q + 1) * u
      in if 2 ^ 1024 \<le> m then 2 ^ 1024 else m)"

text \<open>
  \<open>parseInt\<close> follows ECMAScript's algorithm for a call with no radix: skip leading
  white space, read a sign, switch to radix 16 after a \<open>0x\<close>/\<open>0X\<close> prefix, take the
  longest prefix of digits, return NaN when that prefix is empty, and otherwise the
  double nearest to the integer the digits denote, with the sign. A \<open>char\<close> stands
  for the code unit of the same number, so of the white space code points only those
  below 256 occur (TAB, LF, VT, FF, CR, SP, NBSP). Past 20 significant decimal digits
  ECMAScript allows an engine to read the further digits as zeros; the result here is
  the correctly rounded one.
\<close>

definition is_white_space :: "char \<Rightarrow> bool" where
  "is_white_space c \<longleftrightarrow> (of_char c :: nat) \<in> {9, 10, 11, 12, 13, 32, 160}"

definition digit_value :: "nat \<Rightarrow> char \<Rightarrow> nat option" where
  "digit_value R c =
     (let u = (of_char c :: nat);
          v = (if 48 \<le> u \<and> u \<le> 57 then Some (u - 48)
               else if 97 \<le> u \<and> u \<le> 122 then Some (u - 87)
               else if 65 \<le> u \<and> u \<le> 90 then Some (u - 55)
               else None)
      in case v of None \<Rightarrow> None | Some d \<Rightarrow> if d < R then Some d else None)"

fun radix_value :: "nat \<Rightarrow> nat \<Rightarrow> string \<Rightarrow> nat" where
  "radix_value R acc [] = acc"
| "radix_value R acc (c # cs) =
     (case digit_value R c of
        None \<Rightarrow> acc
      | Some d \<Rightarrow> radix_value R (acc * R + d) cs)"

definition parseInt :: "string \<Rightarrow> int option" where
  "parseInt inputString =
     (let S = dropWhile is_white_space inputString;
          sign = (case S of c # _ \<Rightarrow> if c = CHR ''-'' then - 1 else 1 | [] \<Rightarrow> (1::int));
          S1 = (case S of c # cs \<Rightarrow> if c = CHR ''+'' \<or> c = CHR ''-'' then cs else S | [] \<Rightarrow> S);
          hex = (case S1 of a # b # _ \<Rightarrow> a = CHR ''0'' \<and> (b = CHR ''x'' \<or> b = CHR ''X'')
                 | _ \<Rightarrow> False);
          R = (if hex then 16 else 10);
          S2 = (if hex then drop 2 S1 else S1);
          Z = takeWhile (\<lambda>c. digit_value R c \<noteq> None) S2
      in if Z = [] then None else Some (sign * int (to_double (radix_value R 0 Z))))"

text \<open>\<open>x || y\<close> on numbers: \<open>x\<close> when it is truthy, else \<open>y\<close>; NaN and 0 are falsy.\<close>

definition js_or :: "int option \<Rightarrow> int \<Rightarrow> int" where
  "js_or x y = (case x of None \<Rightarrow> y | Some n \<Rightarrow> if n \<noteq> 0 then n else y)"

definition Math_max :: "int \<Rightarrow> int \<Rightarrow> int" where
  "Math_max a b = (if a < b then b else a)"

definition Math_min :: "int \<Rightarrow> int \<Rightarrow> int" where
  "Math_min a b = (if b < a then b else a)"

text \<open>A string is truthy when it is not empty; an absent value is falsy.\<close>

definition truthy :: "string option \<Rightarrow> bool" where
  "truthy s = (case s of None \<Rightarrow> False | Some v \<Rightarrow> v \<noteq> [])"

section \<open>The audit form (AuditForm)\<close>

text \<open>
  The form keeps \<open>formData\<close>, a copy of the contract's extracted data. Each input's
  \<open>onChange\<close> receives the text of the input and stores a field through
  \<open>handleChange\<close>; the functions below are the four \<open>onChange\<close> handlers and
  \<open>handlePartyChange\<close>, each returning the new \<open>formData\<close>.
\<close>

definition effective_date_onChange :: "string \<Rightarrow> ExtractedData \<Rightarrow> ExtractedData" where
  "effective_date_onChange v formData = formData\<lparr>effective_date := Some v\<rparr>"

definition contract_duration_months_onChange :: "string \<Rightarrow> ExtractedData \<Rightarrow> ExtractedData" where
  "contract_duration_months_onChange v formData =
     formData\<lparr>contract_duration_months := Some (js_or (parseInt v) 0)\<rparr>"

definition jurisdiction_onChange :: "string \<Rightarrow> ExtractedData \<Rightarrow> ExtractedData" where
  "jurisdiction_onChange v formData = formData\<lparr>jurisdiction := Some v\<rparr>"

definition risk_score_onChange :: "string \<Rightarrow> ExtractedData \<Rightarrow> ExtractedData" where
  "risk_score_onChange v formData =
     (let num = Math_min 100 (Math_max 1 (js_or (parseInt v) 1))
      in formData\<lparr>risk_score := num\<rparr>)"

text \<open>
  The duration field is FieldWithError's number input, rendered with the value
  \<open>value ?? ''\<close> and with \<open>onChange={(e) => onChange(e.target.value)}\<close>. What
  \<open>e.target.value\<close> is, and when \<open>onChange\<close> runs, is decided outside the
  repository. By HTML, the value of a number input is the text in it when that is a
  valid floating-point number (an optional \<open>-\<close>, then digits, or a \<open>.\<close> and digits, or
  both, then an optional exponent), and the empty string otherwise. By React, the
  \<open>onChange\<close> of a controlled input runs only when the element's value differs from
  the value React recorded for it last: \<open>tracked\<close> below. For a field whose number is
  unset the element was given the empty string, so \<open>tracked\<close> is empty there.
\<close>

definition is_ascii_digit :: "char \<Rightarrow> bool" where
  "is_ascii_digit c \<longleftrightarrow> 48 \<le> (of_char c :: nat) \<and> (of_char c :: nat) \<le> 57"

definition valid_exponent :: "string \<Rightarrow> bool" where
  "valid_exponent s =
     (case s of
        [] \<Rightarrow> True
      | c # cs \<Rightarrow>
          (c = CHR ''e'' \<or> c = CHR ''E'')
          \<and> (let ds = (case cs of
                          d # ds' \<Rightarrow> if d = CHR ''-'' \<or> d = CHR ''+'' then ds' else cs
                        | [] \<Rightarrow> cs)
             in ds \<noteq> [] \<and> list_all is_ascii_digit ds))"

definition valid_floating_point_number :: "string \<Rightarrow> bool" where
  "valid_floating_point_number s =
     (let s1 = (case s of c # cs \<Rightarrow> if c = CHR ''-'' then cs else s | [] \<Rightarrow> s);
          int_part = takeWhile is_ascii_digit s1;
          rest = dropWhile is_ascii_digit s1
      in case rest of
           c # cs \<Rightarrow>
             if c = CHR ''.''
             then takeWhile is_ascii_digit cs \<noteq> []
                  \<and> valid_exponent (dropWhile is_ascii_digit cs)
             else int_part \<noteq> [] \<and> valid_exponent rest
         | [] \<Rightarrow> int_part \<noteq> [])"

definition number_input_value :: "string \<Rightarrow> string" where
  "number_input_value text = (if valid_floating_point_number text then text else [])"

text \<open>
  The user leaves \<open>text\<close> in the duration input: \<open>onChange\<close> runs with the input's
  value when that differs from \<open>tracked\<close>, and nothing happens otherwise.
\<close>

definition duration_field_typed :: "string \<Rightarrow> string \<Rightarrow> ExtractedData \<Rightarrow> ExtractedData" where
  "duration_field_typed tracked text formData =
     (let v = number_input_value text
      in if v = tracked then formData else contract_duration_months_onChange v formData)"

datatype party_field = Party_name | Party_role

text \<open>
  \<open>handlePartyChange\<close> is only ever called with the index of a rendered party, so the
  index is in range; an assignment past the end of the array is outside what the form
  can do and leaves the list as it is here.
\<close>

definition handlePartyChange :: "nat \<Rightarrow> party_field \<Rightarrow> string \<Rightarrow> ExtractedData \<Rightarrow> ExtractedData" where
  "handlePartyChange index fld v formData =
     (let newParties = parties formData
      in if index < length newParties
         then formData\<lparr>parties := newParties[index :=
                (case fld of
                   Party_name \<Rightarrow> (newParties ! index)\<lparr>name := v\<rparr>
                 | Party_role \<Rightarrow> (newParties ! index)\<lparr>role := Some v\<rparr>)]\<rparr>
         else formData)"

datatype form_event =
    Change_party nat party_field string
  | Change_effective_date string
  | Change_contract_duration_months string
  | Change_jurisdiction string
  | Change_risk_score string

fun form_step :: "ExtractedData \<Rightarrow> form_event \<Rightarrow> ExtractedData" where
  "form_step formData (Change_party i fld v) = handlePartyChange i fld v formData"
| "form_step formData (Change_effective_date v) = effective_date_onChange v formData"
| "form_step formData (Change_contract_duration_months v) =
     contract_duration_months_onChange v formData"
| "form_step formData (Change_jurisdiction v) = jurisdiction_onChange v formData"
| "form_step formData (Change_risk_score v) = risk_score_onChange v formData"

text \<open>
  The form renders its inputs with the \<open>disabled\<close> attribute it was given and its two
  buttons only when it is not disabled. A button's click hands the current \<open>formData\<close>
  to \<open>onSave\<close> or \<open>onApprove\<close>.
\<close>

datatype button = Save_Changes | Approve_Contract

datatype submission = OnSave ExtractedData | OnApprove ExtractedData

record AuditForm_view =
  inputs_disabled :: bool
  buttons :: "button list"

definition AuditForm_render :: "bool \<Rightarrow> AuditForm_view" where
  "AuditForm_render disabled =
     \<lparr>inputs_disabled = disabled,
      buttons = (if \<not> disabled then [Save_Changes, Approve_Contract] else [])\<rparr>"

definition AuditForm_click :: "bool \<Rightarrow> button \<Rightarrow> ExtractedData \<Rightarrow> submission option" where
  "AuditForm_click disabled b formData =
     (if b \<in> set (buttons (AuditForm_render disabled))
      then Some (case b of Save_Changes \<Rightarrow> OnSave formData | Approve_Contract \<Rightarrow> OnApprove formData)
      else None)"

text \<open>The risk indicator under the risk-score input.\<close>

definition risk_label :: "ExtractedData \<Rightarrow> string" where
  "risk_label formData =
     (if risk_score formData > 70 then ''High Risk''
      else if risk_score formData > 40 then ''Medium Risk''
      else ''Low Risk'')"

section \<open>The API client (services/api.ts) and the contract page (ContractDetail)\<close>

record update_request =
  put_id :: string
  put_extracted_data :: ExtractedData
  put_human_approved :: bool
  put_reviewer_notes :: "string option"

definition contractsApi_update ::
  "string \<Rightarrow> ExtractedData \<Rightarrow> bool \<Rightarrow> string option \<Rightarrow> update_request" where
  "contractsApi_update i extractedData humanApproved reviewerNotes =
     \<lparr>put_id = i, put_extracted_data = extractedData,
      put_human_approved = humanApproved, put_reviewer_notes = reviewerNotes\<rparr>"

text \<open>
  The page's state, and the route parameter \<open>id\<close>. \<open>handleSave\<close> and \<open>handleApprove\<close>
  return the requests they send: none when the route's id is absent or empty
  (\<open>if (!id) return\<close>).
\<close>

record ContractDetail_state =
  st_contract :: "Contract option"
  st_loading :: bool
  st_error :: "string option"
  st_saving :: bool
  st_message :: "string option"

definition handleSave :: "string option \<Rightarrow> ExtractedData \<Rightarrow> update_request list" where
  "handleSave rid data =
     (case rid of
        None \<Rightarrow> []
      | Some i \<Rightarrow> if i = [] then [] else [contractsApi_update i data False None])"

definition handleApprove :: "string option \<Rightarrow> ExtractedData \<Rightarrow> update_request list" where
  "handleApprove rid data =
     (case rid of
        None \<Rightarrow> []
      | Some i \<Rightarrow> if i = [] then [] else [contractsApi_update i data True None])"

datatype page =
    Loading_page
  | Error_page
  | Detail_page "AuditForm_view option" bool

definition ContractDetail_render :: "ContractDetail_state \<Rightarrow> page" where
  "ContractDetail_render s =
     (if st_loading s then Loading_page
      else case st_contract s of
        None \<Rightarrow> Error_page
      | Some contract \<Rightarrow>
          if truthy (st_error s) then Error_page
          else Detail_page
                 (case extracted_data contract of
                    Some d \<Rightarrow> Some (AuditForm_render (st_saving s \<or> human_approved contract))
                  | None \<Rightarrow> None)
                 (human_approved contract))"

text \<open>
  What the user can do on the page: click a button that is rendered, which sends the
  handler's requests, or type into an input that is not disabled, which changes
  \<open>formData\<close>.
\<close>

definition ContractDetail_click ::
  "ContractDetail_state \<Rightarrow> string option \<Rightarrow> button \<Rightarrow> ExtractedData \<Rightarrow> update_request list" where
  "ContractDetail_click s rid b formData =
     (case ContractDetail_render s of
        Detail_page (Some form) _ \<Rightarrow>
          if b \<in> set (buttons form)
          then (case b of Save_Changes \<Rightarrow> handleSave rid formData
                | Approve_Contract \<Rightarrow> handleApprove rid formData)
          else []
      | _ \<Rightarrow> [])"

definition ContractDetail_edit ::
  "ContractDetail_state \<Rightarrow> form_event \<Rightarrow> ExtractedData \<Rightarrow> ExtractedData" where
  "ContractDetail_edit s ev formData =
     (case ContractDetail_render s of
        Detail_page (Some form) _ \<Rightarrow>
          if inputs_disabled form then formData else form_step formData ev
      | _ \<Rightarrow> formData)"

section \<open>The dashboard (Dashboard)\<close>

record Dashboard_categories =
  needsReview :: "Contract list"
  approved :: "Contract list"
  processing :: "Contract list"
  rejected :: "Contract list"

definition categorize :: "Contract list \<Rightarrow> Dashboard_categories" where
  "categorize contracts =
     \<lparr>needsReview = filter (\<lambda>c. requires_human_review c) contracts,
      approved = filter (\<lambda>c. status c = Approved) contracts,
      processing = filter (\<lambda>c. status c = Processing) contracts,
      rejected = filter (\<lambda>c. status c = Rejected) contracts\<rparr>"

text \<open>The number of the four categories a contract is listed in.\<close>

definition category_count :: "Contract list \<Rightarrow> Contract \<Rightarrow> nat" where
  "category_count contracts c =
     (let cats = categorize contracts
      in length (filter (\<lambda>cat. c \<in> set cat)
                   [needsReview cats, approved cats, processing cats, rejected cats]))"

section \<open>The backend: validation rules, lifecycle and corrections\<close>

text \<open>
  Modelled from the spec: the backend's configuration, which is not among the
  sources. The spec leaves the reference jurisdiction, the severity of
  \<open>excessive_duration\<close> (``warning/error''), the wording of the messages and the
  confidence threshold to configuration, so they are fields here.
\<close>

record Config =
  reference_jurisdiction :: string
  excessive_duration_severity :: severity
  messages :: "string \<Rightarrow> string"
  confidence_threshold :: real

text \<open>
  Modelled from the spec: a row of the rule table, which is not among the sources:
  \<open>{id, field, predicate(data) -> bool, message, severity, review_reason}\<close>; a rule
  that does not trigger review has no review reason.
\<close>

record Rule =
  rule_id :: string
  governing_field :: string
  predicate :: "ExtractedData \<Rightarrow> bool"
  issue_message :: string
  issue_severity :: severity
  review_reason :: "string option"

text \<open>
  Modelled from the spec: the baseline rule set, which is not among the sources. The
  three rows are the spec's table; a rule looks at one field of the data.
\<close>

definition baseline_rules :: "Config \<Rightarrow> Rule list" where
  "baseline_rules cfg =
     [\<lparr>rule_id = ''excessive_duration'',
       governing_field = ''contract_duration_months'',
       predicate = (\<lambda>d. case contract_duration_months d of None \<Rightarrow> False | Some m \<Rightarrow> m > 24),
       issue_message = messages cfg ''excessive_duration'',
       issue_severity = excessive_duration_severity cfg,
       review_reason = Some ''excessive duration''\<rparr>,
      \<lparr>rule_id = ''foreign_jurisdiction'',
       governing_field = ''jurisdiction'',
       predicate = (\<lambda>d. case jurisdiction d of None \<Rightarrow> False
                         | Some j \<Rightarrow> j \<noteq> reference_jurisdiction cfg),
       issue_message = messages cfg ''foreign_jurisdiction'',
       issue_severity = Warning,
       review_reason = Some ''foreign jurisdiction''\<rparr>,
      \<lparr>rule_id = ''high_risk'',
       governing_field = ''risk_score'',
       predicate = (\<lambda>d. risk_score d > 70),
       issue_message = messages cfg ''high_risk'',
       issue_severity = Error,
       review_reason = Some ''high risk''\<rparr>]"

text \<open>
  Modelled from the spec: the engine's result, which the frontend's types do not
  declare: \<open>{issues, requires_human_review, review_reasons}\<close>.
\<close>

record ValidationResult =
  issues :: "ValidationIssue list"
  vr_requires_human_review :: bool
  vr_review_reasons :: "string list"

text \<open>
  Modelled from the spec: the issue a matching rule adds, field-scoped and carrying
  the rule's id, message and severity. The spec gives a rule no reasoning text, so
  the optional \<open>reasoning\<close> stays unset.
\<close>

definition issue_of :: "Rule \<Rightarrow> ValidationIssue" where
  "issue_of r =
     \<lparr>field = governing_field r, rule = rule_id r, message = issue_message r,
      severity = issue_severity r, reasoning = None\<rparr>"

text \<open>
  Modelled from the spec: the rule validation engine, which is not among the sources.
  Every rule of the table is evaluated, in the table's order; a rule that matches adds
  its issue and, when it has one, its review reason; review is required when a rule
  matched.
\<close>

definition RuleValidationEngine :: "Rule list \<Rightarrow> ExtractedData \<Rightarrow> ValidationResult" where
  "RuleValidationEngine table d =
     (let matched = filter (\<lambda>r. predicate r d) table
      in \<lparr>issues = map issue_of matched,
          vr_requires_human_review = (matched \<noteq> []),
          vr_review_reasons =
            concat (map (\<lambda>r. case review_reason r of None \<Rightarrow> [] | Some s \<Rightarrow> [s]) matched)\<rparr>)"

text \<open>
  Modelled from the spec: whether a rule's governing field, given by its name, is
  unset in the data. \<open>parties\<close> and \<open>risk_score\<close> are not optional, so they are
  never unset.
\<close>

definition field_unset :: "string \<Rightarrow> ExtractedData \<Rightarrow> bool" where
  "field_unset f d =
     (if f = ''effective_date'' then effective_date d = None
      else if f = ''contract_duration_months'' then contract_duration_months d = None
      else if f = ''contract_duration_raw'' then contract_duration_raw d = None
      else if f = ''jurisdiction'' then jurisdiction d = None
      else False)"

text \<open>
  Modelled from the spec: what drives a lifecycle transition, which is not among the
  sources: the pipeline's start, the end of extraction with the validation result and
  the confidence, the finding that the document is no contract, and the two human
  actions with the result of validating the edited data.
\<close>

datatype lifecycle_event =
    Pipeline_start
  | Extraction_done ValidationResult real
  | Not_a_contract
  | Human_approve ValidationResult
  | Human_save ValidationResult

text \<open>
  Modelled from the spec: the lifecycle manager, which is not among the sources. Its
  transitions are those of the spec's list; \<open>None\<close> is a transition the list does not
  have. A processed contract is approved only when validation reports no issue, asks
  for no review, and the confidence is at or above the threshold; otherwise it goes
  to review. Human approval succeeds with or without remaining issues (the override).
\<close>

fun LifecycleManager :: "Config \<Rightarrow> ContractStatus \<Rightarrow> lifecycle_event \<Rightarrow> ContractStatus option" where
  "LifecycleManager cfg Pending Pipeline_start = Some Processing"
| "LifecycleManager cfg Processing (Extraction_done vr confidence) =
     Some (if issues vr = [] \<and> \<not> vr_requires_human_review vr
              \<and> confidence_threshold cfg \<le> confidence
           then Approved else Requires_human_review)"
| "LifecycleManager cfg Processing Not_a_contract = Some Rejected"
| "LifecycleManager cfg Requires_human_review (Human_approve vr) = Some Approved"
| "LifecycleManager cfg Requires_human_review (Human_save vr) = Some Requires_human_review"
| "LifecycleManager cfg _ _ = None"

text \<open>
  Modelled from the spec: the persistence behind the correction handler, which is not
  among the sources. The store maps a contract id to its record (\<open>load(id) -> Contract?\<close>),
  and an update replaces the whole record.
\<close>

type_synonym store = "string \<Rightarrow> Contract option"

text \<open>
  Modelled from the spec: the part \<open>save\<close> and \<open>approve\<close> share, which is not among
  the sources: keep the edited data, run the rule validation engine on it, and
  replace \<open>validation_issues\<close>, \<open>requires_human_review\<close> and \<open>review_reasons\<close> by its
  result.
\<close>

definition revalidate :: "Config \<Rightarrow> ExtractedData \<Rightarrow> Contract \<Rightarrow> Contract" where
  "revalidate cfg data c =
     (let vr = RuleValidationEngine (baseline_rules cfg) data
      in c\<lparr>extracted_data := Some data,
           validation_issues := issues vr,
           requires_human_review := vr_requires_human_review vr,
           review_reasons := vr_review_reasons vr\<rparr>)"

text \<open>
  Modelled from the spec: the correction handler's \<open>save\<close>, which is not among the
  sources. It answers \<open>None\<close> for an id the store does not have.
\<close>

definition save :: "Config \<Rightarrow> store \<Rightarrow> string \<Rightarrow> ExtractedData \<Rightarrow> (Contract \<times> store) option" where
  "save cfg st cid data =
     (case st cid of
        None \<Rightarrow> None
      | Some c \<Rightarrow> let c' = revalidate cfg data c in Some (c', st(cid := Some c')))"

text \<open>
  Modelled from the spec: the correction handler's \<open>approve\<close>, which is not among the
  sources: as \<open>save\<close>, then the contract is approved, marked as approved by a human,
  and \<open>processed_at\<close> is set to the time \<open>now\<close>.
\<close>

definition approve ::
  "Config \<Rightarrow> string \<Rightarrow> store \<Rightarrow> string \<Rightarrow> ExtractedData \<Rightarrow> (Contract \<times> store) option" where
  "approve cfg now st cid data =
     (case st cid of
        None \<Rightarrow> None
      | Some c \<Rightarrow>
          let c' = (revalidate cfg data c)
                     \<lparr>status := Approved, human_approved := True, processed_at := Some now\<rparr>
          in Some (c', st(cid := Some c')))"

text \<open>
  Modelled from the spec: \<open>update(id, ExtractedData, humanApproved)\<close>, which is not
  among the sources; it is \<open>approve\<close> when approval is requested and \<open>save\<close> otherwise.
\<close>

definition update ::
  "Config \<Rightarrow> string \<Rightarrow> store \<Rightarrow> string \<Rightarrow> ExtractedData \<Rightarrow> bool \<Rightarrow> (Contract \<times> store) option" where
  "update cfg now st cid data humanApproved =
     (if humanApproved then approve cfg now st cid data else save cfg st cid data)"

text \<open>
  Modelled from the spec: the endpoint that receives the frontend's PUT request,
  which is not among the sources; it hands the request's fields to \<open>update\<close>.
\<close>

definition put_contract :: "Config \<Rightarrow> string \<Rightarrow> store \<Rightarrow> update_request \<Rightarrow> (Contract \<times> store) option" where
  "put_contract cfg now st req =
     update cfg now st (put_id req) (put_extracted_data req) (put_human_approved req)"

section \<open>Example data\<close>

definition fd0 :: ExtractedData where
  "fd0 = \<lparr>parties = [\<lparr>name = ''Acme'', role = Some ''Provider''\<rparr>], effective_date = None,
     contract_duration_months = None, contract_duration_raw = None,
     jurisdiction = Some ''Chile'', risk_score = 80\<rparr>"

definition c0 :: Contract where
  "c0 = \<lparr>contract_id = ''c-1'', file_name = ''lease.pdf'', status = Requires_human_review,
     created_at = ''2024-01-01T00:00:00'', processed_at = None, extracted_data = Some fd0,
     validation_issues = [], requires_human_review = True, review_reasons = [''high risk''],
     confidence_score = Some 1, human_approved = False\<rparr>"

definition page0 :: "Contract \<Rightarrow> ContractDetail_state" where
  "page0 c = \<lparr>st_contract = Some c, st_loading = False, st_error = None, st_saving = False,
     st_message = None\<rparr>"

definition cfg0 :: Config where
  "cfg0 = \<lparr>reference_jurisdiction = ''Chile'', excessive_duration_severity = Warning,
     messages = (\<lambda>r. r), confidence_threshold = 1 / 2\<rparr>"

definition clean0 :: ExtractedData where
  "clean0 = \<lparr>parties = [], effective_date = None, contract_duration_months = Some 12,
     contract_duration_raw = None, jurisdiction = Some ''Chile'', risk_score = 30\<rparr>"

definition unset0 :: ExtractedData where
  "unset0 = \<lparr>parties = [], effective_date = None, contract_duration_months = None,
     contract_duration_raw = None, jurisdiction = None, risk_score = 30\<rparr>"

definition store0 :: store where
  "store0 = (\<lambda>_. None)(''c-1'' := Some c0)"

section \<open>The audit form keeps edited values in range\<close>

text \<open>
  Rounding to a double keeps every integer below \<open>2^53\<close>, never passes the int that
  stands for \<open>Infinity\<close>, and gives zero only for zero.
\<close>

lemma double_ulp_bounds:
  "0 < u \<Longrightarrow> u \<le> n \<Longrightarrow> 0 < double_ulp u n \<and> double_ulp u n \<le> n"
proof (induction u n rule: double_ulp.induct)
  case (1 u n)
  show ?case
  proof (cases "n div u < 2 ^ 53")
    case True
    then show ?thesis using "1.prems" by (simp add: double_ulp.simps [of u n])
  next
    case False
    then have "2 \<le> n div u" by simp
    then have "2 * u \<le> (n div u) * u"
      by simp
    also have "\<dots> \<le> n"
      by simp
    finally have "2 * u \<le> n" .
    moreover have "double_ulp u n = double_ulp (2 * u) n"
      using False "1.prems" by (simp add: double_ulp.simps [of u n])
    ultimately show ?thesis
      using "1.IH" "1.prems" False by simp
  qed
qed

lemma to_double_small:
  assumes "n < 2 ^ 53"
  shows "to_double n = n"
proof -
  have "double_ulp 1 n = 1"
    using assms by (subst double_ulp.simps) simp
  then show ?thesis
    using assms by (simp add: to_double_def Let_def)
qed

lemma to_double_le: "to_double n \<le> 2 ^ 1024"
  by (simp add: to_double_def Let_def)

lemma to_double_zero: "to_double n = 0 \<longleftrightarrow> n = 0"
proof (cases "n = 0")
  case True
  then show ?thesis by (simp add: to_double_small)
next
  case False
  define u where "u = double_ulp 1 n"
  have u: "0 < u \<and> u \<le> n"
    unfolding u_def using False by (intro double_ulp_bounds) simp_all
  then have q: "0 < n div u"
    by (simp add: div_greater_zero_iff)
  have "0 < to_double n"
    unfolding to_double_def Let_def u_def [symmetric]
    using u q by auto
  then show ?thesis using False by simp
qed

lemma parseInt_ex: "parseInt ''150'' = Some 150" "parseInt ''abc'' = None" "parseInt '''' = None"
  "parseInt ''  -42px'' = Some (- 42)" "parseInt ''0x1F'' = Some 31" "parseInt ''0'' = Some 0"
  "parseInt ''-0'' = Some 0" "parseInt ''3.7'' = Some 3" "parseInt ''1e5'' = Some 1" "parseInt ''0x'' = None"
  "parseInt ''+7'' = Some 7" "parseInt ''30'' = Some 30" "parseInt ''-5'' = Some (- 5)" "parseInt ''36'' = Some 36"
  "parseInt ''9007199254740993'' = Some 9007199254740992"
  "parseInt ''-9007199254740995'' = Some (- 9007199254740996)"
  by (simp_all add: parseInt_def is_white_space_def digit_value_def to_double_def
        double_ulp.simps Let_def)

lemma clamp_bounds: "1 \<le> Math_min 100 (Math_max 1 x) \<and> Math_min 100 (Math_max 1 x) \<le> 100"
  by (simp add: Math_min_def Math_max_def)

lemma risk_score_onChange_value:
  "risk_score (risk_score_onChange v formData) = Math_min 100 (Math_max 1 (js_or (parseInt v) 1))"
  by (simp add: risk_score_onChange_def Let_def)

lemma form_step_risk_range:
  "1 \<le> risk_score fd \<and> risk_score fd \<le> 100 \<Longrightarrow>
   1 \<le> risk_score (form_step fd ev) \<and> risk_score (form_step fd ev) \<le> 100"
  by (cases ev)
     (simp_all add: handlePartyChange_def effective_date_onChange_def
       contract_duration_months_onChange_def jurisdiction_onChange_def
       risk_score_onChange_value clamp_bounds Let_def)

lemma form_steps_risk_range:
  "1 \<le> risk_score fd \<and> risk_score fd \<le> 100 \<Longrightarrow>
   1 \<le> risk_score (foldl form_step fd evs) \<and> risk_score (foldl form_step fd evs) \<le> 100"
proof (induction evs arbitrary: fd)
  case Nil
  then show ?case by simp
next
  case (Cons ev evs)
  have "1 \<le> risk_score (form_step fd ev) \<and> risk_score (form_step fd ev) \<le> 100"
    using Cons.prems by (rule form_step_risk_range)
  then show ?case using Cons.IH by simp
qed

lemma AuditForm_click_enabled:
  "AuditForm_click False Save_Changes fd = Some (OnSave fd)"
  "AuditForm_click False Approve_Contract fd = Some (OnApprove fd)"
  by (simp_all add: AuditForm_click_def AuditForm_render_def)

text \<open>
  Claim C2. Whatever text is typed into the risk-score input, the value the edit
  stores lies in \<open>[1, 100]\<close>: a number that \<open>parseInt\<close> reads below 1 becomes 1, one
  above 100 becomes 100, one in range is kept, and text that is no number becomes 1.
  The value stays in range through every later edit of the form, and it is the value
  that the Save and the Approve button hand on.
\<close>

theorem risk_score_edit_clamped:
  "(1 \<le> risk_score (risk_score_onChange v formData)
      \<and> risk_score (risk_score_onChange v formData) \<le> 100)
   \<and> risk_score (risk_score_onChange v formData) =
       (case parseInt v of
          None \<Rightarrow> 1
        | Some n \<Rightarrow> if n < 1 then 1 else if 100 < n then 100 else n)
   \<and> (\<forall>evs. 1 \<le> risk_score (foldl form_step (risk_score_onChange v formData) evs)
          \<and> risk_score (foldl form_step (risk_score_onChange v formData) evs) \<le> 100)
   \<and> AuditForm_click False Save_Changes (risk_score_onChange v formData) =
       Some (OnSave (risk_score_onChange v formData))
   \<and> AuditForm_click False Approve_Contract (risk_score_onChange v formData) =
       Some (OnApprove (risk_score_onChange v formData))"
proof -
  have range: "1 \<le> risk_score (risk_score_onChange v formData)
      \<and> risk_score (risk_score_onChange v formData) \<le> 100"
    by (simp only: risk_score_onChange_value clamp_bounds)
  have val: "risk_score (risk_score_onChange v formData) =
       (case parseInt v of
          None \<Rightarrow> 1
        | Some n \<Rightarrow> if n < 1 then 1 else if 100 < n then 100 else n)"
    by (simp add: risk_score_onChange_value Math_min_def Math_max_def js_or_def
          split: option.split)
  have later: "\<forall>evs. 1 \<le> risk_score (foldl form_step (risk_score_onChange v formData) evs)
          \<and> risk_score (foldl form_step (risk_score_onChange v formData) evs) \<le> 100"
  proof (intro allI)
    fix evs
    show "1 \<le> risk_score (foldl form_step (risk_score_onChange v formData) evs)
          \<and> risk_score (foldl form_step (risk_score_onChange v formData) evs) \<le> 100"
      using range by (rule form_steps_risk_range)
  qed
  show ?thesis
    using range val later by (simp add: AuditForm_click_enabled)
qed


theorem risk_score_edit_clamped_witness:
  "risk_score (risk_score_onChange ''150'' fd0) = 100
   \<and> risk_score (risk_score_onChange ''0'' fd0) = 1
   \<and> risk_score (risk_score_onChange ''-5'' fd0) = 1
   \<and> risk_score (risk_score_onChange ''abc'' fd0) = 1
   \<and> risk_score (risk_score_onChange ''30'' fd0) = 30
   \<and> risk_score (foldl form_step (risk_score_onChange ''150'' fd0)
         [Change_jurisdiction ''Peru'', Change_contract_duration_months ''36'']) = 100
   \<and> AuditForm_click False Save_Changes (risk_score_onChange ''150'' fd0) =
       Some (OnSave (fd0\<lparr>risk_score := 100\<rparr>))"
  using risk_score_edit_clamped [of "''150''" fd0]
    risk_score_edit_clamped [of "''0''" fd0]
    risk_score_edit_clamped [of "''-5''" fd0]
    risk_score_edit_clamped [of "''abc''" fd0]
    risk_score_edit_clamped [of "''30''" fd0]
  by (simp add: parseInt_ex jurisdiction_onChange_def contract_duration_months_onChange_def
       risk_score_onChange_def Math_min_def Math_max_def js_or_def Let_def)

lemma number_input_value_ex:
  "number_input_value ''abc'' = []" "number_input_value [] = []"
  "number_input_value ''12abc'' = []" "number_input_value ''12.'' = []"
  "number_input_value ''36'' = ''36''" "number_input_value ''-1.5e3'' = ''-1.5e3''"
  "number_input_value ''.5'' = ''.5''" "number_input_value ''+7'' = []"
  by (simp_all add: number_input_value_def valid_floating_point_number_def valid_exponent_def
        is_ascii_digit_def Let_def)

lemma contract_duration_months_onChange_value:
  "contract_duration_months (contract_duration_months_onChange v formData) =
     Some (case parseInt v of None \<Rightarrow> 0 | Some n \<Rightarrow> if n \<noteq> 0 then n else 0)"
  by (simp add: contract_duration_months_onChange_def js_or_def)

lemma parseInt_empty: "parseInt [] = None"
  by (simp add: parseInt_def)

text \<open>
  Claim C8, as the form has it. Whenever the duration input's change handler runs, it
  stores a number in \<open>contract_duration_months\<close>, never an unset field: \<open>parseInt\<close> of
  the input's value when that is a number other than zero, and 0 otherwise, so the
  empty value and a value that is no number give 0; that number is what the Save and
  the Approve button hand on. The handler runs when the value of the number input
  differs from the one recorded last. Text that is no valid number gives the empty
  value: typed over a number that is shown it stores 0, and typed into the field
  while it is unset and empty it changes nothing.
\<close>

theorem duration_change_stores_number:
  "contract_duration_months (contract_duration_months_onChange v formData) =
     Some (case parseInt v of None \<Rightarrow> 0 | Some n \<Rightarrow> if n \<noteq> 0 then n else 0)
   \<and> contract_duration_months (contract_duration_months_onChange v formData) \<noteq> None
   \<and> (parseInt v = None \<longrightarrow>
        contract_duration_months (contract_duration_months_onChange v formData) = Some 0)
   \<and> contract_duration_months (contract_duration_months_onChange [] formData) = Some 0
   \<and> AuditForm_click False Save_Changes (contract_duration_months_onChange v formData) =
       Some (OnSave (contract_duration_months_onChange v formData))
   \<and> AuditForm_click False Approve_Contract (contract_duration_months_onChange v formData) =
       Some (OnApprove (contract_duration_months_onChange v formData))
   \<and> (number_input_value text \<noteq> tracked \<longrightarrow>
        duration_field_typed tracked text formData =
          contract_duration_months_onChange (number_input_value text) formData)
   \<and> (number_input_value text = tracked \<longrightarrow>
        duration_field_typed tracked text formData = formData)
   \<and> (\<not> valid_floating_point_number text \<and> tracked \<noteq> [] \<longrightarrow>
        contract_duration_months (duration_field_typed tracked text formData) = Some 0)
   \<and> (\<not> valid_floating_point_number text \<longrightarrow>
        duration_field_typed [] text formData = formData)"
proof -
  have handler: "contract_duration_months (contract_duration_months_onChange v formData) =
     Some (case parseInt v of None \<Rightarrow> 0 | Some n \<Rightarrow> if n \<noteq> 0 then n else 0)
   \<and> contract_duration_months (contract_duration_months_onChange v formData) \<noteq> None
   \<and> (parseInt v = None \<longrightarrow>
        contract_duration_months (contract_duration_months_onChange v formData) = Some 0)
   \<and> contract_duration_months (contract_duration_months_onChange [] formData) = Some 0"
    by (simp add: contract_duration_months_onChange_value parseInt_empty)
  have clicks: "AuditForm_click False Save_Changes (contract_duration_months_onChange v formData) =
       Some (OnSave (contract_duration_months_onChange v formData))
   \<and> AuditForm_click False Approve_Contract (contract_duration_months_onChange v formData) =
       Some (OnApprove (contract_duration_months_onChange v formData))"
    by (simp add: AuditForm_click_enabled)
  have runs: "number_input_value text \<noteq> tracked \<longrightarrow>
        duration_field_typed tracked text formData =
          contract_duration_months_onChange (number_input_value text) formData"
    by (simp add: duration_field_typed_def Let_def)
  have idle: "number_input_value text = tracked \<longrightarrow>
        duration_field_typed tracked text formData = formData"
    by (simp add: duration_field_typed_def Let_def)
  have over: "\<not> valid_floating_point_number text \<and> tracked \<noteq> [] \<longrightarrow>
        contract_duration_months (duration_field_typed tracked text formData) = Some 0"
  proof
    assume a: "\<not> valid_floating_point_number text \<and> tracked \<noteq> []"
    then have "number_input_value text = []"
      by (simp add: number_input_value_def)
    with a have "duration_field_typed tracked text formData =
        contract_duration_months_onChange [] formData"
      by (auto simp add: duration_field_typed_def Let_def)
    then show "contract_duration_months (duration_field_typed tracked text formData) = Some 0"
      by (simp add: contract_duration_months_onChange_value parseInt_empty)
  qed
  have unset: "\<not> valid_floating_point_number text \<longrightarrow>
        duration_field_typed [] text formData = formData"
    by (simp add: duration_field_typed_def number_input_value_def Let_def)
  show ?thesis
    using handler clicks runs idle over unset by blast
qed

theorem duration_change_stores_number_witness:
  "contract_duration_months (contract_duration_months_onChange ''abc'' fd0) = Some 0
   \<and> contract_duration_months (contract_duration_months_onChange [] fd0) = Some 0
   \<and> contract_duration_months (contract_duration_months_onChange ''0'' fd0) = Some 0
   \<and> contract_duration_months (contract_duration_months_onChange ''36'' fd0) = Some 36
   \<and> contract_duration_months (contract_duration_months_onChange ''-5'' fd0) = Some (- 5)
   \<and> contract_duration_months (contract_duration_months_onChange ''9007199254740993'' fd0) =
       Some 9007199254740992
   \<and> contract_duration_months fd0 = None
   \<and> AuditForm_click False Save_Changes (contract_duration_months_onChange ''abc'' fd0) =
       Some (OnSave (fd0\<lparr>contract_duration_months := Some 0\<rparr>))
   \<and> duration_field_typed [] ''36'' fd0 = fd0\<lparr>contract_duration_months := Some 36\<rparr>
   \<and> duration_field_typed ''36'' ''36'' (fd0\<lparr>contract_duration_months := Some 36\<rparr>) =
       fd0\<lparr>contract_duration_months := Some 36\<rparr>
   \<and> contract_duration_months
        (duration_field_typed ''12'' ''12abc'' (fd0\<lparr>contract_duration_months := Some 12\<rparr>)) = Some 0
   \<and> duration_field_typed [] ''12abc'' fd0 = fd0"
  using duration_change_stores_number [of "''abc''" fd0 "''36''" "[]"]
    duration_change_stores_number [of "[]" fd0 "''36''" "''36''"]
    duration_change_stores_number [of "''0''" "fd0\<lparr>contract_duration_months := Some 36\<rparr>" "''36''" "''36''"]
    duration_change_stores_number [of "''36''" "fd0\<lparr>contract_duration_months := Some 12\<rparr>" "''12abc''" "''12''"]
    duration_change_stores_number [of "''-5''" fd0 "''12abc''" "[]"]
    duration_change_stores_number [of "''9007199254740993''" fd0 "''abc''" "[]"]
  by (simp add: parseInt_ex parseInt_empty number_input_value_ex valid_floating_point_number_def
        valid_exponent_def is_ascii_digit_def contract_duration_months_onChange_def js_or_def
        duration_field_typed_def fd0_def Let_def)

text \<open>
  The claim as first stated fails at the form: with the duration unset, text that is
  no number leaves the input's value empty, as it was rendered, so no change handler
  runs, the field stays unset, and the Save button hands it on unset and not as 0.
\<close>

theorem duration_typed_while_unset_counterexample:
  "contract_duration_months unset0 = None
   \<and> number_input_value ''abc'' = []
   \<and> duration_field_typed [] ''abc'' unset0 = unset0
   \<and> AuditForm_click False Save_Changes (duration_field_typed [] ''abc'' unset0) =
       Some (OnSave unset0)
   \<and> contract_duration_months (duration_field_typed [] ''abc'' unset0) \<noteq> Some 0"
  by (simp add: number_input_value_ex duration_field_typed_def AuditForm_click_enabled
        unset0_def Let_def)

lemma render_approved:
  assumes "st_contract s = Some c" and "human_approved c"
  shows "ContractDetail_render s = Loading_page \<or> ContractDetail_render s = Error_page
    \<or> ContractDetail_render s = Detail_page None True
    \<or> ContractDetail_render s =
        Detail_page (Some \<lparr>inputs_disabled = True, buttons = []\<rparr>) True"
  using assms
  by (simp add: ContractDetail_render_def AuditForm_render_def split: option.split)

text \<open>
  Claim C9. When the contract shown has \<open>human_approved\<close> set, the page renders the
  audit form, if it renders one, with its inputs disabled and with no button; so no
  click sends an update request and no edit changes the form's data.
\<close>

theorem approved_contract_is_frozen:
  assumes "st_contract s = Some c" and "human_approved c"
  shows "(\<forall>form banner. ContractDetail_render s = Detail_page (Some form) banner \<longrightarrow>
            inputs_disabled form \<and> buttons form = [])
    \<and> (\<forall>rid b formData. ContractDetail_click s rid b formData = [])
    \<and> (\<forall>ev formData. ContractDetail_edit s ev formData = formData)"
proof -
  note r = render_approved [OF assms]
  have a: "\<forall>form banner. ContractDetail_render s = Detail_page (Some form) banner \<longrightarrow>
            inputs_disabled form \<and> buttons form = []"
    using r by auto
  have b: "\<forall>rid b formData. ContractDetail_click s rid b formData = []"
    using r by (auto simp add: ContractDetail_click_def)
  have c: "\<forall>ev formData. ContractDetail_edit s ev formData = formData"
    using r by (auto simp add: ContractDetail_edit_def)
  show ?thesis using a b c by blast
qed



theorem approved_contract_is_frozen_witness:
  "ContractDetail_render (page0 (c0\<lparr>human_approved := True\<rparr>)) =
      Detail_page (Some \<lparr>inputs_disabled = True, buttons = []\<rparr>) True
   \<and> ContractDetail_click (page0 (c0\<lparr>human_approved := True\<rparr>)) (Some ''c-1'') Save_Changes fd0 = []
   \<and> ContractDetail_click (page0 (c0\<lparr>human_approved := True\<rparr>)) (Some ''c-1'') Approve_Contract fd0 = []
   \<and> ContractDetail_edit (page0 (c0\<lparr>human_approved := True\<rparr>)) (Change_risk_score ''10'') fd0 = fd0
   \<and> ContractDetail_click (page0 c0) (Some ''c-1'') Save_Changes fd0 =
       [\<lparr>put_id = ''c-1'', put_extracted_data = fd0, put_human_approved = False,
         put_reviewer_notes = None\<rparr>]"
  using approved_contract_is_frozen [of "page0 (c0\<lparr>human_approved := True\<rparr>)" "c0\<lparr>human_approved := True\<rparr>"]
  by (simp add: page0_def c0_def ContractDetail_render_def ContractDetail_click_def
        AuditForm_render_def truthy_def handleSave_def contractsApi_update_def)

lemma in_categories:
  "c \<in> set (needsReview (categorize cs)) \<longleftrightarrow> c \<in> set cs \<and> requires_human_review c"
  "c \<in> set (approved (categorize cs)) \<longleftrightarrow> c \<in> set cs \<and> status c = Approved"
  "c \<in> set (processing (categorize cs)) \<longleftrightarrow> c \<in> set cs \<and> status c = Processing"
  "c \<in> set (rejected (categorize cs)) \<longleftrightarrow> c \<in> set cs \<and> status c = Rejected"
  by (simp_all add: categorize_def)

lemma category_count_eq:
  "c \<in> set cs \<Longrightarrow> category_count cs c =
     (if requires_human_review c then 1 else 0)
     + (if status c = Approved \<or> status c = Processing \<or> status c = Rejected then 1 else 0)"
  by (cases "status c") (simp_all add: category_count_def Let_def in_categories)

text \<open>
  Claim C10. The dashboard lists a contract under Needs Review by its
  \<open>requires_human_review\<close> flag and under Approved, Processing and Rejected by its
  status. A listed contract whose flag is set while its status is approved, processing
  or rejected is therefore in two categories; one whose status is
  \<open>requires_human_review\<close> while its flag is not set is in none.
\<close>

theorem dashboard_counts_flag_and_status:
  assumes "c \<in> set contracts"
  shows "(requires_human_review c \<and> status c \<in> {Approved, Processing, Rejected} \<longrightarrow>
           c \<in> set (needsReview (categorize contracts))
           \<and> (c \<in> set (approved (categorize contracts))
               \<or> c \<in> set (processing (categorize contracts))
               \<or> c \<in> set (rejected (categorize contracts)))
           \<and> category_count contracts c = 2)
    \<and> (status c = Requires_human_review \<and> \<not> requires_human_review c \<longrightarrow>
           c \<notin> set (needsReview (categorize contracts))
           \<and> c \<notin> set (approved (categorize contracts))
           \<and> c \<notin> set (processing (categorize contracts))
           \<and> c \<notin> set (rejected (categorize contracts))
           \<and> category_count contracts c = 0)"
  using assms by (auto simp add: in_categories category_count_eq)

theorem dashboard_counts_flag_and_status_witness:
  "category_count [c0\<lparr>status := Approved\<rparr>, c0\<lparr>requires_human_review := False\<rparr>]
      (c0\<lparr>status := Approved\<rparr>) = 2
   \<and> c0\<lparr>status := Approved\<rparr> \<in> set (needsReview (categorize
        [c0\<lparr>status := Approved\<rparr>, c0\<lparr>requires_human_review := False\<rparr>]))
   \<and> c0\<lparr>status := Approved\<rparr> \<in> set (approved (categorize
        [c0\<lparr>status := Approved\<rparr>, c0\<lparr>requires_human_review := False\<rparr>]))
   \<and> category_count [c0\<lparr>status := Approved\<rparr>, c0\<lparr>requires_human_review := False\<rparr>]
      (c0\<lparr>requires_human_review := False\<rparr>) = 0"
  using dashboard_counts_flag_and_status
      [of "c0\<lparr>status := Approved\<rparr>" "[c0\<lparr>status := Approved\<rparr>, c0\<lparr>requires_human_review := False\<rparr>]"]
    dashboard_counts_flag_and_status
      [of "c0\<lparr>requires_human_review := False\<rparr>" "[c0\<lparr>status := Approved\<rparr>, c0\<lparr>requires_human_review := False\<rparr>]"]
  by (simp add: c0_def category_count_eq in_categories)

section \<open>Validation rules, lifecycle and corrections\<close>

lemma engine_issues:
  "issues (RuleValidationEngine table d) = map issue_of (filter (\<lambda>r. predicate r d) table)"
  by (simp add: RuleValidationEngine_def Let_def)

lemma engine_requires:
  "vr_requires_human_review (RuleValidationEngine table d) \<longleftrightarrow> (\<exists>r \<in> set table. predicate r d)"
  by (simp add: RuleValidationEngine_def Let_def filter_empty_conv)

lemma engine_reasons:
  "vr_review_reasons (RuleValidationEngine table d) =
     concat (map (\<lambda>r. case review_reason r of None \<Rightarrow> [] | Some s \<Rightarrow> [s])
               (filter (\<lambda>r. predicate r d) table))"
  by (simp add: RuleValidationEngine_def Let_def)

lemma baseline_issue_rules:
  "map rule (issues (RuleValidationEngine (baseline_rules cfg) d)) =
     (if (case contract_duration_months d of None \<Rightarrow> False | Some m \<Rightarrow> m > 24)
      then [''excessive_duration''] else [])
     @ (if (case jurisdiction d of None \<Rightarrow> False | Some j \<Rightarrow> j \<noteq> reference_jurisdiction cfg)
        then [''foreign_jurisdiction''] else [])
     @ (if risk_score d > 70 then [''high_risk''] else [])"
  by (simp add: engine_issues baseline_rules_def issue_of_def)

lemma baseline_reasons:
  "vr_review_reasons (RuleValidationEngine (baseline_rules cfg) d) =
     (if (case contract_duration_months d of None \<Rightarrow> False | Some m \<Rightarrow> m > 24)
      then [''excessive duration''] else [])
     @ (if (case jurisdiction d of None \<Rightarrow> False | Some j \<Rightarrow> j \<noteq> reference_jurisdiction cfg)
        then [''foreign jurisdiction''] else [])
     @ (if risk_score d > 70 then [''high risk''] else [])"
  by (simp add: engine_reasons baseline_rules_def)

lemma baseline_issues_high_risk:
  "filter (\<lambda>i. rule i = ''high_risk'') (issues (RuleValidationEngine (baseline_rules cfg) d)) =
     (if risk_score d > 70
      then [\<lparr>field = ''risk_score'', rule = ''high_risk'', message = messages cfg ''high_risk'',
             severity = Error, reasoning = None\<rparr>]
      else [])"
  by (simp add: engine_issues baseline_rules_def issue_of_def)

text \<open>
  Claim C1. For data whose duration is at most 24 months, whose jurisdiction is the
  reference jurisdiction and whose risk score is at most 70, the rule validation
  engine reports no issue; and when the extraction confidence is at or above the
  configured threshold, the lifecycle manager moves the contract from processing to
  approved.
\<close>

theorem clean_contract_is_approved:
  assumes "contract_duration_months d = Some m" and "m \<le> 24"
    and "jurisdiction d = Some (reference_jurisdiction cfg)"
    and "risk_score d \<le> 70"
  shows "issues (RuleValidationEngine (baseline_rules cfg) d) = []
    \<and> vr_review_reasons (RuleValidationEngine (baseline_rules cfg) d) = []
    \<and> \<not> vr_requires_human_review (RuleValidationEngine (baseline_rules cfg) d)
    \<and> (confidence_threshold cfg \<le> confidence \<longrightarrow>
         LifecycleManager cfg Processing
           (Extraction_done (RuleValidationEngine (baseline_rules cfg) d) confidence) =
         Some Approved)"
proof -
  have none: "filter (\<lambda>r. predicate r d) (baseline_rules cfg) = []"
    using assms by (simp add: baseline_rules_def)
  have i: "issues (RuleValidationEngine (baseline_rules cfg) d) = []"
    by (simp add: engine_issues none)
  have r: "vr_review_reasons (RuleValidationEngine (baseline_rules cfg) d) = []"
    by (simp add: engine_reasons none)
  have q: "\<not> vr_requires_human_review (RuleValidationEngine (baseline_rules cfg) d)"
    by (simp add: RuleValidationEngine_def Let_def none)
  show ?thesis
    by (simp add: i r q)
qed



theorem clean_contract_is_approved_witness:
  "issues (RuleValidationEngine (baseline_rules cfg0) clean0) = []
   \<and> LifecycleManager cfg0 Processing
        (Extraction_done (RuleValidationEngine (baseline_rules cfg0) clean0) 1) = Some Approved
   \<and> LifecycleManager cfg0 Processing
        (Extraction_done (RuleValidationEngine (baseline_rules cfg0) clean0) 0) =
       Some Requires_human_review
   \<and> map rule (issues (RuleValidationEngine (baseline_rules cfg0)
        (clean0\<lparr>contract_duration_months := Some 36\<rparr>))) = [''excessive_duration'']"
proof -
  have h: "contract_duration_months clean0 = Some 12" "(12::int) \<le> 24"
    "jurisdiction clean0 = Some (reference_jurisdiction cfg0)" "risk_score clean0 \<le> 70"
    by (simp_all add: clean0_def cfg0_def)
  show ?thesis
    using clean_contract_is_approved [OF h, of 1] clean_contract_is_approved [OF h, of 0]
    by (simp add: baseline_issue_rules cfg0_def clean0_def)
qed

text \<open>
  Claim C4. The \<open>high_risk\<close> rule fires exactly when the risk score is above 70: the
  engine's result then holds one \<open>high_risk\<close> issue, of severity error on the field
  \<open>risk_score\<close>, and the review reason ``high risk''; at 70 and below it holds neither.
  The form's risk indicator draws the same line for its High Risk label.
\<close>

theorem high_risk_boundary:
  "((\<exists>i \<in> set (issues (RuleValidationEngine (baseline_rules cfg) d)). rule i = ''high_risk'')
      \<longleftrightarrow> 70 < risk_score d)
   \<and> filter (\<lambda>i. rule i = ''high_risk'') (issues (RuleValidationEngine (baseline_rules cfg) d)) =
       (if 70 < risk_score d
        then [\<lparr>field = ''risk_score'', rule = ''high_risk'', message = messages cfg ''high_risk'',
               severity = Error, reasoning = None\<rparr>]
        else [])
   \<and> (''high risk'' \<in> set (vr_review_reasons (RuleValidationEngine (baseline_rules cfg) d))
      \<longleftrightarrow> 70 < risk_score d)
   \<and> (70 < risk_score d \<longrightarrow>
        vr_requires_human_review (RuleValidationEngine (baseline_rules cfg) d))
   \<and> (risk_label d = ''High Risk'' \<longleftrightarrow> 70 < risk_score d)"
proof -
  have a: "(\<exists>i \<in> set (issues (RuleValidationEngine (baseline_rules cfg) d)). rule i = ''high_risk'')
      \<longleftrightarrow> 70 < risk_score d"
  proof -
    have "(\<exists>i \<in> set (issues (RuleValidationEngine (baseline_rules cfg) d)). rule i = ''high_risk'')
      \<longleftrightarrow> ''high_risk'' \<in> set (map rule (issues (RuleValidationEngine (baseline_rules cfg) d)))"
      by force
    also have "\<dots> \<longleftrightarrow> 70 < risk_score d"
      by (simp only: baseline_issue_rules) simp
    finally show ?thesis .
  qed
  have c: "''high risk'' \<in> set (vr_review_reasons (RuleValidationEngine (baseline_rules cfg) d))
      \<longleftrightarrow> 70 < risk_score d"
    by (simp only: baseline_reasons) simp
  have e: "70 < risk_score d \<longrightarrow>
        vr_requires_human_review (RuleValidationEngine (baseline_rules cfg) d)"
    by (simp add: engine_requires baseline_rules_def)
  have f: "risk_label d = ''High Risk'' \<longleftrightarrow> 70 < risk_score d"
    by (simp add: risk_label_def)
  show ?thesis
    using a c e f by (simp add: baseline_issues_high_risk)
qed

theorem high_risk_boundary_witness:
  "filter (\<lambda>i. rule i = ''high_risk'')
      (issues (RuleValidationEngine (baseline_rules cfg0) (clean0\<lparr>risk_score := 70\<rparr>))) = []
   \<and> filter (\<lambda>i. rule i = ''high_risk'')
      (issues (RuleValidationEngine (baseline_rules cfg0) (clean0\<lparr>risk_score := 71\<rparr>))) =
      [\<lparr>field = ''risk_score'', rule = ''high_risk'', message = ''high_risk'',
        severity = Error, reasoning = None\<rparr>]
   \<and> vr_review_reasons (RuleValidationEngine (baseline_rules cfg0) (clean0\<lparr>risk_score := 71\<rparr>)) =
      [''high risk'']
   \<and> vr_review_reasons (RuleValidationEngine (baseline_rules cfg0) (clean0\<lparr>risk_score := 70\<rparr>)) = []
   \<and> risk_label (clean0\<lparr>risk_score := 70\<rparr>) = ''Medium Risk''
   \<and> risk_label (clean0\<lparr>risk_score := 71\<rparr>) = ''High Risk''"
  using high_risk_boundary [of cfg0 "clean0\<lparr>risk_score := 70\<rparr>"]
    high_risk_boundary [of cfg0 "clean0\<lparr>risk_score := 71\<rparr>"]
  by (simp add: baseline_reasons risk_label_def cfg0_def clean0_def)

text \<open>
  Claim C7. A rule of the baseline table whose governing field is unset in the data
  does not match, and the engine's result then has no issue of that rule and not its
  review reason. In particular an unset jurisdiction never gives
  \<open>foreign_jurisdiction\<close>, and an unset duration never gives \<open>excessive_duration\<close>.
\<close>

theorem unset_field_never_matches:
  "(\<forall>r \<in> set (baseline_rules cfg). field_unset (governing_field r) d \<longrightarrow>
       \<not> predicate r d
       \<and> (\<forall>i \<in> set (issues (RuleValidationEngine (baseline_rules cfg) d)). rule i \<noteq> rule_id r)
       \<and> (\<forall>s. review_reason r = Some s \<longrightarrow>
            s \<notin> set (vr_review_reasons (RuleValidationEngine (baseline_rules cfg) d))))
   \<and> (jurisdiction d = None \<longrightarrow>
        (\<forall>i \<in> set (issues (RuleValidationEngine (baseline_rules cfg) d)).
           rule i \<noteq> ''foreign_jurisdiction'')
        \<and> ''foreign jurisdiction'' \<notin> set (vr_review_reasons (RuleValidationEngine (baseline_rules cfg) d)))
   \<and> (contract_duration_months d = None \<longrightarrow>
        (\<forall>i \<in> set (issues (RuleValidationEngine (baseline_rules cfg) d)).
           rule i \<noteq> ''excessive_duration'')
        \<and> ''excessive duration'' \<notin> set (vr_review_reasons (RuleValidationEngine (baseline_rules cfg) d)))"
proof -
  have rules: "(\<forall>i \<in> set (issues (RuleValidationEngine (baseline_rules cfg) d)). rule i \<noteq> x)
      \<longleftrightarrow> x \<notin> set (map rule (issues (RuleValidationEngine (baseline_rules cfg) d)))" for x
    by auto
  have j: "jurisdiction d = None \<longrightarrow>
        (\<forall>i \<in> set (issues (RuleValidationEngine (baseline_rules cfg) d)).
           rule i \<noteq> ''foreign_jurisdiction'')
        \<and> ''foreign jurisdiction'' \<notin> set (vr_review_reasons (RuleValidationEngine (baseline_rules cfg) d))"
    by (simp only: rules baseline_issue_rules baseline_reasons) simp
  have m: "contract_duration_months d = None \<longrightarrow>
        (\<forall>i \<in> set (issues (RuleValidationEngine (baseline_rules cfg) d)).
           rule i \<noteq> ''excessive_duration'')
        \<and> ''excessive duration'' \<notin> set (vr_review_reasons (RuleValidationEngine (baseline_rules cfg) d))"
    by (simp only: rules baseline_issue_rules baseline_reasons) simp
  have all: "\<forall>r \<in> set (baseline_rules cfg). field_unset (governing_field r) d \<longrightarrow>
       \<not> predicate r d
       \<and> (\<forall>i \<in> set (issues (RuleValidationEngine (baseline_rules cfg) d)). rule i \<noteq> rule_id r)
       \<and> (\<forall>s. review_reason r = Some s \<longrightarrow>
            s \<notin> set (vr_review_reasons (RuleValidationEngine (baseline_rules cfg) d)))"
    using j m by (simp add: baseline_rules_def field_unset_def)
  show ?thesis using all j m by blast
qed


theorem unset_field_never_matches_witness:
  "issues (RuleValidationEngine (baseline_rules cfg0) unset0) = []
   \<and> vr_review_reasons (RuleValidationEngine (baseline_rules cfg0) unset0) = []
   \<and> field_unset ''jurisdiction'' unset0
   \<and> field_unset ''contract_duration_months'' unset0
   \<and> map rule (issues (RuleValidationEngine (baseline_rules cfg0)
        (unset0\<lparr>jurisdiction := Some ''Peru''\<rparr>))) = [''foreign_jurisdiction'']"
  using unset_field_never_matches [of cfg0 unset0]
  by (simp add: engine_issues engine_reasons baseline_rules_def issue_of_def field_unset_def
        cfg0_def unset0_def)

lemma revalidate_fields:
  "status (revalidate cfg data c) = status c"
  "human_approved (revalidate cfg data c) = human_approved c"
  "processed_at (revalidate cfg data c) = processed_at c"
  "extracted_data (revalidate cfg data c) = Some data"
  "validation_issues (revalidate cfg data c) = issues (RuleValidationEngine (baseline_rules cfg) data)"
  "review_reasons (revalidate cfg data c) =
     vr_review_reasons (RuleValidationEngine (baseline_rules cfg) data)"
  "requires_human_review (revalidate cfg data c) =
     vr_requires_human_review (RuleValidationEngine (baseline_rules cfg) data)"
  by (simp_all add: revalidate_def Let_def)

text \<open>
  Claim C6. For a stored contract, \<open>update\<close> without approval (the request the page's
  \<open>handleSave\<close> sends) stores the edited data with \<open>validation_issues\<close>,
  \<open>review_reasons\<close> and \<open>requires_human_review\<close> taken from validating it again, and
  leaves \<open>status\<close> and \<open>human_approved\<close> as they were.
\<close>

theorem save_keeps_status:
  assumes "st cid = Some c"
  shows "update cfg now st cid data False =
      Some (revalidate cfg data c, st(cid := Some (revalidate cfg data c)))
    \<and> status (revalidate cfg data c) = status c
    \<and> human_approved (revalidate cfg data c) = human_approved c
    \<and> validation_issues (revalidate cfg data c) =
        issues (RuleValidationEngine (baseline_rules cfg) data)
    \<and> review_reasons (revalidate cfg data c) =
        vr_review_reasons (RuleValidationEngine (baseline_rules cfg) data)
    \<and> requires_human_review (revalidate cfg data c) =
        vr_requires_human_review (RuleValidationEngine (baseline_rules cfg) data)
    \<and> (\<forall>req \<in> set (handleSave (Some cid) data).
         put_contract cfg now st req = update cfg now st cid data False)"
proof -
  have u: "update cfg now st cid data False =
      Some (revalidate cfg data c, st(cid := Some (revalidate cfg data c)))"
    using assms by (simp add: update_def save_def Let_def)
  have p: "\<forall>req \<in> set (handleSave (Some cid) data).
         put_contract cfg now st req = update cfg now st cid data False"
    by (simp add: handleSave_def put_contract_def contractsApi_update_def)
  show ?thesis
    using u p by (simp add: revalidate_fields)
qed


theorem save_keeps_status_witness:
  "(case update cfg0 ''t1'' store0 ''c-1'' (fd0\<lparr>risk_score := 30\<rparr>) False of
      None \<Rightarrow> False
    | Some (c', st') \<Rightarrow>
        status c' = Requires_human_review \<and> human_approved c' = False
        \<and> validation_issues c' = [] \<and> review_reasons c' = []
        \<and> requires_human_review c' = False \<and> st' ''c-1'' = Some c')
   \<and> map put_human_approved (handleSave (Some ''c-1'') fd0) = [False]
   \<and> (case update cfg0 ''t1'' store0 ''c-1'' (fd0\<lparr>risk_score := 30\<rparr>) True of
      None \<Rightarrow> False
    | Some (c', st') \<Rightarrow> status c' = Approved \<and> human_approved c' = True)"
proof -
  have h: "store0 ''c-1'' = Some c0"
    by (simp add: store0_def)
  have e: "issues (RuleValidationEngine (baseline_rules cfg0) (fd0\<lparr>risk_score := 30\<rparr>)) = []"
      "vr_review_reasons (RuleValidationEngine (baseline_rules cfg0) (fd0\<lparr>risk_score := 30\<rparr>)) = []"
      "\<not> vr_requires_human_review (RuleValidationEngine (baseline_rules cfg0) (fd0\<lparr>risk_score := 30\<rparr>))"
    by (simp_all add: engine_issues engine_reasons engine_requires baseline_rules_def cfg0_def fd0_def)
  have a: "update cfg0 ''t1'' store0 ''c-1'' (fd0\<lparr>risk_score := 30\<rparr>) True =
      Some ((revalidate cfg0 (fd0\<lparr>risk_score := 30\<rparr>) c0)
               \<lparr>status := Approved, human_approved := True, processed_at := Some ''t1''\<rparr>,
            store0(''c-1'' := Some ((revalidate cfg0 (fd0\<lparr>risk_score := 30\<rparr>) c0)
               \<lparr>status := Approved, human_approved := True, processed_at := Some ''t1''\<rparr>)))"
    by (simp add: update_def approve_def h Let_def)
  show ?thesis
    using h save_keeps_status [of store0 "''c-1''" c0 cfg0 "''t1''" "fd0\<lparr>risk_score := 30\<rparr>"]
    by (simp add: a e handleSave_def contractsApi_update_def c0_def)
qed

end
